theory Spec2Isabelle
  imports Main "HOL-Library.Sublist"
begin

section \<open>The artifact capture callback of the movie pitch agent\<close>

text \<open>
  A shallow embedding of \<^verbatim>\<open>SaveArtifactsPlugin.on_agent_output_callback\<close>
  (\<^verbatim>\<open>src/movie_pitch_agent/save_artifacts_plugin.py\<close>). The callback walks the Parts
  of an agent's output message, writes a default media type into Parts that lack one, and
  hands a copy of every inline-data Part to the artifact service.

  Python objects are mutable and shared by reference, and two statements of the callback
  depend on that: the assignment \<^verbatim>\<open>part.inline_data.mime_type = 'text/plain'\<close> and the
  argument \<^verbatim>\<open>copy.copy(part)\<close>. Part and Blob objects therefore live in an explicit store,
  and a message holds the addresses of its Parts.
\<close>

subsection \<open>Objects and the store\<close>

type_synonym addr = nat

type_synonym bytes = "char list"

text \<open>
  \<^verbatim>\<open>types.Blob\<close>: raw bytes, a media type and a display name, each optional. Strings are
  character lists; characters are the code points below 256.
\<close>

record blob =
  data :: "bytes option"
  mime_type :: "string option"
  display_name :: "string option"

text \<open>
  \<^verbatim>\<open>types.Part\<close>: the callback reads only \<^verbatim>\<open>inline_data\<close>, a reference to a Blob or
  \<^verbatim>\<open>None\<close>; \<open>part_text\<close> is the field \<^verbatim>\<open>text\<close> and stands for the plain content of a Part.
\<close>

record part =
  part_text :: "string option"
  inline_data :: "addr option"

text \<open>\<^verbatim>\<open>types.Content\<close>: \<^verbatim>\<open>parts\<close> is \<^verbatim>\<open>Optional[list[Part]]\<close>, a list of references.\<close>

record content =
  parts :: "addr list option"
  role :: "string option"

datatype level = INFO | WARNING | ERROR

text \<open>
  A call of \<^verbatim>\<open>save_artifact\<close> as the artifact service receives it: the keyword arguments,
  and what the Part passed as \<^verbatim>\<open>artifact\<close> holds at the moment of the call (its own
  fields and the Blob its \<^verbatim>\<open>inline_data\<close> refers to).
\<close>

record save_call =
  call_app_name :: string
  call_user_id :: string
  call_session_id :: string
  call_filename :: string
  call_artifact :: addr
  artifact_part :: part
  artifact_blob :: "blob option"

text \<open>
  The artifact service is an external collaborator, so it is a parameter. During a call it
  may assign to the fields of the object it was given and of the Blob reachable from it;
  then it returns a version number or raises. A reply is the list of those assignments, in
  order, and the outcome: \<open>Inr v\<close> for the returned version, \<open>Inl msg\<close> for a raised
  instance of \<^verbatim>\<open>Exception\<close> whose \<^verbatim>\<open>str\<close> is \<open>msg\<close>. The reply may depend on all earlier
  calls and on the present one.
\<close>

datatype mutation =
    SetText "string option"
  | SetInlineData "addr option"
  | SetData "bytes option"
  | SetMimeType "string option"
  | SetDisplayName "string option"

type_synonym reply = "mutation list \<times> (string + nat)"

type_synonym artifact_service = "save_call list \<Rightarrow> save_call \<Rightarrow> reply"

text \<open>
  \<^verbatim>\<open>InvocationContext\<close>, with \<^verbatim>\<open>session.id\<close> as the field \<open>session_id\<close>. The artifact
  service is optional.
\<close>

record invocation_context =
  artifact_service :: "artifact_service option"
  invocation_id :: string
  app_name :: string
  user_id :: string
  session_id :: string

text \<open>
  Everything the callback can change: the Part and Blob objects (an address is an index,
  a new object is appended), the records written to the logger, and the calls made to the
  artifact service so far.
\<close>

record world =
  part_heap :: "part list"
  blob_heap :: "blob list"
  logged :: "(level \<times> string) list"
  calls :: "save_call list"

definition logger :: "level \<Rightarrow> string \<Rightarrow> world \<Rightarrow> world" where
  "logger lv msg w = w\<lparr>logged := logged w @ [(lv, msg)]\<rparr>"

subsection \<open>Strings\<close>

text \<open>Python's truth value of an \<^verbatim>\<open>Optional[str]\<close>: \<^verbatim>\<open>None\<close> and \<^verbatim>\<open>''\<close> are false.\<close>

definition truthy :: "string option \<Rightarrow> bool" where
  "truthy s = (case s of None \<Rightarrow> False | Some t \<Rightarrow> t \<noteq> [])"

text \<open>The characters \<^verbatim>\<open>str.strip()\<close> removes, among the code points below 256.\<close>

definition is_space :: "char \<Rightarrow> bool" where
  "is_space c = ((of_char c :: nat) \<in> {9, 10, 11, 12, 13, 28, 29, 30, 31, 32, 133, 160})"

definition strip :: "string \<Rightarrow> string" where
  "strip s = rev (dropWhile is_space (rev (dropWhile is_space s)))"

text \<open>The decimal digits of an index, as an f-string renders an \<^verbatim>\<open>int\<close>.\<close>

fun str_nat :: "nat \<Rightarrow> string" where
  "str_nat n =
     (if n < 10 then [char_of (48 + n)]
      else str_nat (n div 10) @ [char_of (48 + n mod 10)])"

declare str_nat.simps [simp del]

text \<open>An f-string renders \<^verbatim>\<open>None\<close> as the text \<^verbatim>\<open>None\<close>.\<close>

definition fmt :: "string option \<Rightarrow> string" where
  "fmt s = (case s of None \<Rightarrow> ''None'' | Some t \<Rightarrow> t)"

subsection \<open>Copying and saving\<close>

text \<open>
  \<^verbatim>\<open>copy.copy(part)\<close> is a shallow copy: a new Part object whose fields hold the same
  values, so its \<^verbatim>\<open>inline_data\<close> is the same Blob object as the original's.
\<close>

definition copy_part :: "addr \<Rightarrow> world \<Rightarrow> addr \<times> world" where
  "copy_part a w = (length (part_heap w), w\<lparr>part_heap := part_heap w @ [part_heap w ! a]\<rparr>)"

text \<open>
  One assignment by the artifact service, through the Part \<open>art\<close> it was given; \<open>b\<close> is the
  Blob that Part referred to when the call was made.
\<close>

fun apply_mutation :: "addr \<Rightarrow> addr option \<Rightarrow> world \<Rightarrow> mutation \<Rightarrow> world" where
  "apply_mutation art b w (SetText t) =
     w\<lparr>part_heap := (part_heap w)[art := (part_heap w ! art)\<lparr>part_text := t\<rparr>]\<rparr>"
| "apply_mutation art b w (SetInlineData r) =
     w\<lparr>part_heap := (part_heap w)[art := (part_heap w ! art)\<lparr>inline_data := r\<rparr>]\<rparr>"
| "apply_mutation art None w m = w"
| "apply_mutation art (Some b) w (SetData d) =
     w\<lparr>blob_heap := (blob_heap w)[b := (blob_heap w ! b)\<lparr>data := d\<rparr>]\<rparr>"
| "apply_mutation art (Some b) w (SetMimeType m) =
     w\<lparr>blob_heap := (blob_heap w)[b := (blob_heap w ! b)\<lparr>mime_type := m\<rparr>]\<rparr>"
| "apply_mutation art (Some b) w (SetDisplayName n) =
     w\<lparr>blob_heap := (blob_heap w)[b := (blob_heap w ! b)\<lparr>display_name := n\<rparr>]\<rparr>"

text \<open>
  \<^verbatim>\<open>await artifact_service.save_artifact(app_name=..., user_id=..., session_id=...,
  filename=..., artifact=...)\<close>: the call is recorded, the service's assignments take
  effect, and the outcome is handed back.
\<close>

definition save_artifact ::
  "artifact_service \<Rightarrow> string \<Rightarrow> string \<Rightarrow> string \<Rightarrow> string \<Rightarrow> addr \<Rightarrow> world
     \<Rightarrow> (string + nat) \<times> world" where
  "save_artifact svc app usr sess file_name art w =
     (let p = part_heap w ! art;
          c = \<lparr>call_app_name = app, call_user_id = usr, call_session_id = sess,
               call_filename = file_name, call_artifact = art, artifact_part = p,
               artifact_blob = map_option (\<lambda>b. blob_heap w ! b) (inline_data p)\<rparr>;
          r = svc (calls w) c
      in (snd r,
          foldl (apply_mutation art (inline_data p)) (w\<lparr>calls := calls w @ [c]\<rparr>) (fst r)))"

subsection \<open>The callback\<close>

text \<open>
  Lines 60 to 63: the file name is the Blob's display name when that is a non-empty
  string, and otherwise a name made of the invocation identifier and the index of the
  Part, which is logged.
\<close>

definition get_file_name :: "invocation_context \<Rightarrow> nat \<Rightarrow> addr \<Rightarrow> world \<Rightarrow> string \<times> world" where
  "get_file_name ctx i b w =
     (let dn = display_name (blob_heap w ! b)
      in if truthy dn then (the dn, w)
         else (let file_name = ''artifact_'' @ invocation_id ctx @ ''_'' @ str_nat i @ ''.txt''
               in (file_name,
                   logger INFO (''No display_name found, using generated filename: '' @ file_name) w)))"

text \<open>
  Lines 66 to 70: when the media type is \<^verbatim>\<open>None\<close>, empty, or empty once stripped, a
  warning is logged and \<^verbatim>\<open>'text/plain'\<close> is assigned to the field of the Blob object
  itself, the one the message's Part refers to.
\<close>

definition ensure_mime_type :: "string \<Rightarrow> addr \<Rightarrow> world \<Rightarrow> world" where
  "ensure_mime_type file_name b w =
     (let mt = mime_type (blob_heap w ! b)
      in if \<not> truthy mt \<or> (case mt of None \<Rightarrow> True | Some m \<Rightarrow> strip m = [])
         then (logger WARNING (''Empty MIME type for '' @ file_name @ '', using text/plain'') w)
                \<lparr>blob_heap := (blob_heap w)[b := (blob_heap w ! b)\<lparr>mime_type := Some ''text/plain''\<rparr>]\<rparr>
         else w)"

text \<open>
  The body of the \<^verbatim>\<open>try\<close> block for the Part \<open>p\<close> at index \<open>i\<close>, whose \<^verbatim>\<open>inline_data\<close> is
  the Blob \<open>b\<close>. \<open>Inl (e, w')\<close>: the body raised \<open>e\<close> and left the world \<open>w'\<close>; the only
  statement of the body that can raise is the call of the artifact service. The success
  record reads the media type from the message's Part after the call.
\<close>

definition try_body ::
  "invocation_context \<Rightarrow> artifact_service \<Rightarrow> nat \<Rightarrow> addr \<Rightarrow> addr \<Rightarrow> world
     \<Rightarrow> (string \<times> world) + world" where
  "try_body ctx svc i p b w =
     (let (file_name, w1) = get_file_name ctx i b w;
          w2 = ensure_mime_type file_name b w1;
          (art, w3) = copy_part p w2;
          (res, w4) = save_artifact svc (app_name ctx) (user_id ctx) (session_id ctx) file_name art w3
      in case res of
           Inl e \<Rightarrow> Inl (e, w4)
         | Inr v \<Rightarrow>
             Inr (logger INFO (''Successfully saved artifact: '' @ file_name @ '' (''
                                 @ fmt (mime_type (blob_heap w4 ! b)) @ '')'') w4))"

text \<open>
  One iteration of the loop over \<^verbatim>\<open>enumerate(agent_output.parts)\<close>: a Part without inline
  data is skipped; otherwise the \<^verbatim>\<open>try\<close> body runs, and \<^verbatim>\<open>except Exception\<close> logs what it
  raised and goes on. (The flag \<^verbatim>\<open>modified\<close> is written and never read.)
\<close>

definition process_part ::
  "invocation_context \<Rightarrow> artifact_service \<Rightarrow> nat \<Rightarrow> addr \<Rightarrow> world \<Rightarrow> world" where
  "process_part ctx svc i p w =
     (case inline_data (part_heap w ! p) of
        None \<Rightarrow> w
      | Some b \<Rightarrow>
          (case try_body ctx svc i p b w of
             Inl (e, w') \<Rightarrow>
               logger ERROR (''Failed to save artifact for part '' @ str_nat i @ '': '' @ e) w'
           | Inr w' \<Rightarrow> w'))"

fun process_parts ::
  "invocation_context \<Rightarrow> artifact_service \<Rightarrow> nat \<Rightarrow> addr list \<Rightarrow> world \<Rightarrow> world" where
  "process_parts ctx svc i [] w = w"
| "process_parts ctx svc i (p # ps) w =
     process_parts ctx svc (Suc i) ps (process_part ctx svc i p w)"

text \<open>
  The callback. Its result is \<^verbatim>\<open>Optional[types.Content]\<close>, where \<^verbatim>\<open>None\<close> tells the
  framework that the output is not replaced. No statement outside the \<^verbatim>\<open>try\<close> block can
  raise, so the result has no error branch.
\<close>

definition on_agent_output_callback ::
  "invocation_context \<Rightarrow> content \<Rightarrow> world \<Rightarrow> content option \<times> world" where
  "on_agent_output_callback ctx agent_output w =
     (case artifact_service ctx of
        None \<Rightarrow>
          (None, logger WARNING
                   ''Artifact service is not set. SaveArtifactsPlugin will not be enabled.'' w)
      | Some svc \<Rightarrow>
          (case parts agent_output of
             None \<Rightarrow> (None, w)
           | Some [] \<Rightarrow> (None, w)
           | Some ps \<Rightarrow> (None, process_parts ctx svc 0 ps w)))"

subsection \<open>The worlds around the call of the artifact service\<close>

text \<open>
  Names for three values of the \<^verbatim>\<open>try\<close> body: the world in which the artifact service
  is called (file name chosen, media type ensured, Part copied), the world the call
  leaves, and the outcome of the call.
\<close>

definition before_save :: "invocation_context \<Rightarrow> nat \<Rightarrow> addr \<Rightarrow> addr \<Rightarrow> world \<Rightarrow> world" where
  "before_save ctx i p b w =
     snd (copy_part p (ensure_mime_type (fst (get_file_name ctx i b w)) b (snd (get_file_name ctx i b w))))"

definition after_save :: "invocation_context \<Rightarrow> artifact_service \<Rightarrow> nat \<Rightarrow> addr \<Rightarrow> addr \<Rightarrow> world \<Rightarrow> world" where
  "after_save ctx svc i p b w =
     snd (save_artifact svc (app_name ctx) (user_id ctx) (session_id ctx)
            (fst (get_file_name ctx i b w)) (length (part_heap w)) (before_save ctx i p b w))"

definition save_outcome :: "invocation_context \<Rightarrow> artifact_service \<Rightarrow> nat \<Rightarrow> addr \<Rightarrow> addr \<Rightarrow> world \<Rightarrow> string + nat" where
  "save_outcome ctx svc i p b w =
     fst (save_artifact svc (app_name ctx) (user_id ctx) (session_id ctx)
            (fst (get_file_name ctx i b w)) (length (part_heap w)) (before_save ctx i p b w))"

text \<open>The assignments of an artifact service that go to the media type of the Blob.\<close>

fun assigns_mime_type :: "mutation \<Rightarrow> bool" where
  "assigns_mime_type (SetMimeType m) = True"
| "assigns_mime_type m = False"

subsection \<open>Example inputs\<close>

text \<open>
  Three artifact services: one that stores and returns the next version number, one that
  always raises, and one that assigns to the Part it is given and to that Part's Blob
  before it returns.
\<close>

definition ok_service :: artifact_service where
  "ok_service h c = ([], Inr (length h))"

definition failing_service :: artifact_service where
  "failing_service h c = ([], Inl ''store unavailable'')"

definition mutating_service :: artifact_service where
  "mutating_service h c =
     ([SetText (Some ''seen''), SetData (Some ''REDACTED''),
       SetMimeType (Some ''application/octet-stream'')],
      Inr (length h))"

definition ex_ctx :: "artifact_service option \<Rightarrow> invocation_context" where
  "ex_ctx s = \<lparr>artifact_service = s, invocation_id = ''inv1'', app_name = ''movie_pitch'',
               user_id = ''user1'', session_id = ''sess1''\<rparr>"

text \<open>
  A text Part, an inline-data Part whose media type and display name are the empty
  string, and an inline-data Part that has both.
\<close>

definition ex_world :: world where
  "ex_world =
     \<lparr>part_heap = [\<lparr>part_text = Some ''hello'', inline_data = None\<rparr>,
                   \<lparr>part_text = None, inline_data = Some 0\<rparr>,
                   \<lparr>part_text = None, inline_data = Some 1\<rparr>],
      blob_heap = [\<lparr>data = Some ''PNGDATA'', mime_type = Some [], display_name = Some []\<rparr>,
                   \<lparr>data = Some ''JPGDATA'', mime_type = Some ''image/jpeg'',
                      display_name = Some ''poster.jpg''\<rparr>],
      logged = [], calls = []\<rparr>"

definition ex_msg :: content where
  "ex_msg = \<lparr>parts = Some [0, 1, 2], role = Some ''model''\<rparr>"

definition text_msg :: content where
  "text_msg = \<lparr>parts = Some [0], role = Some ''model''\<rparr>"

text \<open>
  A message whose inline-data Part has no display name and a media type of one space.
\<close>

definition blank_world :: world where
  "blank_world =
     \<lparr>part_heap = [\<lparr>part_text = Some ''hello'', inline_data = None\<rparr>,
                   \<lparr>part_text = None, inline_data = Some 0\<rparr>],
      blob_heap = [\<lparr>data = Some ''PNGDATA'', mime_type = Some '' '', display_name = None\<rparr>],
      logged = [], calls = []\<rparr>"

definition blank_msg :: content where
  "blank_msg = \<lparr>parts = Some [0, 1], role = Some ''model''\<rparr>"

text \<open>
  The same message with a display name of three spaces and a media type that needs no
  default.
\<close>

definition spaces_world :: world where
  "spaces_world =
     \<lparr>part_heap = [\<lparr>part_text = Some ''hello'', inline_data = None\<rparr>,
                   \<lparr>part_text = None, inline_data = Some 0\<rparr>],
      blob_heap = [\<lparr>data = Some ''PNGDATA'', mime_type = Some ''image/png'',
                      display_name = Some ''   ''\<rparr>],
      logged = [], calls = []\<rparr>"

text \<open>An artifact service that assigns a media type to the Blob it is given and then raises.\<close>

definition breaking_service :: artifact_service where
  "breaking_service h c = ([SetMimeType (Some ''application/x-broken'')], Inl ''store unavailable'')"

section \<open>Properties\<close>

subsection \<open>What the logger and the artifact service leave alone\<close>

lemma logger_simps [simp]:
  "part_heap (logger lv m w) = part_heap w"
  "blob_heap (logger lv m w) = blob_heap w"
  "calls (logger lv m w) = calls w"
  "logged (logger lv m w) = logged w @ [(lv, m)]"
  by (simp_all add: logger_def)

lemma apply_mutation_calls [simp]: "calls (apply_mutation art b w m) = calls w"
  by (cases m; cases b) simp_all

lemma apply_mutation_logged [simp]: "logged (apply_mutation art b w m) = logged w"
  by (cases m; cases b) simp_all

lemma apply_mutation_length [simp]:
  "length (part_heap (apply_mutation art b w m)) = length (part_heap w)"
  "length (blob_heap (apply_mutation art b w m)) = length (blob_heap w)"
  by (cases m; cases b; simp)+

lemma apply_mutation_other_part:
  "a \<noteq> art \<Longrightarrow> part_heap (apply_mutation art b w m) ! a = part_heap w ! a"
  by (cases m; cases b) simp_all

lemma foldl_mutation_calls [simp]: "calls (foldl (apply_mutation art b) w ms) = calls w"
  by (induction ms arbitrary: w) simp_all

lemma foldl_mutation_logged [simp]: "logged (foldl (apply_mutation art b) w ms) = logged w"
  by (induction ms arbitrary: w) simp_all

lemma foldl_mutation_length [simp]:
  "length (part_heap (foldl (apply_mutation art b) w ms)) = length (part_heap w)"
  "length (blob_heap (foldl (apply_mutation art b) w ms)) = length (blob_heap w)"
  by (induction ms arbitrary: w) simp_all

lemma foldl_mutation_other_part:
  "a \<noteq> art \<Longrightarrow> part_heap (foldl (apply_mutation art b) w ms) ! a = part_heap w ! a"
  by (induction ms arbitrary: w) (simp_all add: apply_mutation_other_part)

lemma update_keeps_field:
  assumes "\<And>x. f (g x) = f x"
  shows "f (xs[b := g (xs ! b)] ! a) = f (xs ! a)"
proof (cases "b < length xs")
  case True
  with assms show ?thesis
    by (cases "a = b") simp_all
next
  case False
  then show ?thesis
    by (simp add: list_update_beyond)
qed

lemma apply_mutation_mime_type:
  assumes "\<not> assigns_mime_type m"
  shows "mime_type (blob_heap (apply_mutation art b w m) ! a) = mime_type (blob_heap w ! a)"
proof (cases b)
  case None
  then show ?thesis
    by (cases m) simp_all
next
  case (Some b0)
  show ?thesis
  proof (cases m)
    case (SetData d)
    have "mime_type ((blob_heap w)[b0 := (\<lambda>x. x\<lparr>data := d\<rparr>) (blob_heap w ! b0)] ! a)
            = mime_type (blob_heap w ! a)"
      by (rule update_keeps_field) simp
    with Some SetData show ?thesis by simp
  next
    case (SetDisplayName n)
    have "mime_type ((blob_heap w)[b0 := (\<lambda>x. x\<lparr>display_name := n\<rparr>) (blob_heap w ! b0)] ! a)
            = mime_type (blob_heap w ! a)"
      by (rule update_keeps_field) simp
    with Some SetDisplayName show ?thesis by simp
  next
    case (SetMimeType t)
    with assms show ?thesis by simp
  qed (simp_all add: Some)
qed

lemma foldl_mutation_mime_type:
  assumes "\<forall>m\<in>set ms. \<not> assigns_mime_type m"
  shows "mime_type (blob_heap (foldl (apply_mutation art b) w ms) ! a) = mime_type (blob_heap w ! a)"
  using assms
proof (induction ms arbitrary: w)
  case Nil
  then show ?case by simp
next
  case (Cons m ms)
  then have "mime_type (blob_heap (foldl (apply_mutation art b) (apply_mutation art b w m) ms) ! a)
               = mime_type (blob_heap (apply_mutation art b w m) ! a)"
    by simp
  also have "\<dots> = mime_type (blob_heap w ! a)"
    using Cons.prems by (simp add: apply_mutation_mime_type)
  finally show ?case by simp
qed

subsection \<open>The steps of the \<^verbatim>\<open>try\<close> body\<close>

lemma strip_Nil_iff: "strip s = [] \<longleftrightarrow> (\<forall>c\<in>set s. is_space c)"
proof
  assume "strip s = []"
  then have all: "\<forall>c\<in>set (dropWhile is_space s). is_space c"
    by (simp add: strip_def dropWhile_eq_Nil_conv)
  have "dropWhile is_space s = []"
  proof (rule ccontr)
    assume ne: "dropWhile is_space s \<noteq> []"
    then have "\<not> is_space (hd (dropWhile is_space s))"
      by (rule hd_dropWhile)
    moreover have "hd (dropWhile is_space s) \<in> set (dropWhile is_space s)"
      using ne by (rule hd_in_set)
    ultimately show False
      using all by blast
  qed
  then show "\<forall>c\<in>set s. is_space c"
    by (simp add: dropWhile_eq_Nil_conv)
next
  assume "\<forall>c\<in>set s. is_space c"
  then have e: "dropWhile is_space s = []"
    by (simp add: dropWhile_eq_Nil_conv)
  show "strip s = []"
    unfolding strip_def by (simp only: e rev.simps dropWhile.simps)
qed

lemma get_file_name_fst:
  "fst (get_file_name ctx i b w) =
     (if truthy (display_name (blob_heap w ! b)) then the (display_name (blob_heap w ! b))
      else ''artifact_'' @ invocation_id ctx @ ''_'' @ str_nat i @ ''.txt'')"
  by (simp add: get_file_name_def Let_def)

lemma get_file_name_snd [simp]:
  "part_heap (snd (get_file_name ctx i b w)) = part_heap w"
  "blob_heap (snd (get_file_name ctx i b w)) = blob_heap w"
  "calls (snd (get_file_name ctx i b w)) = calls w"
  by (simp_all add: get_file_name_def Let_def)


lemma ensure_mime_type_simps [simp]:
  "part_heap (ensure_mime_type f b w) = part_heap w"
  "calls (ensure_mime_type f b w) = calls w"
  "length (blob_heap (ensure_mime_type f b w)) = length (blob_heap w)"
  by (simp_all add: ensure_mime_type_def Let_def)


lemma ensure_mime_type_default:
  assumes "b < length (blob_heap w)"
    and "case mime_type (blob_heap w ! b) of None \<Rightarrow> True | Some m \<Rightarrow> \<forall>c\<in>set m. is_space c"
  shows "mime_type (blob_heap (ensure_mime_type f b w) ! b) = Some ''text/plain''"
  using assms
  by (simp add: ensure_mime_type_def Let_def truthy_def strip_Nil_iff split: option.splits)

lemma ensure_mime_type_keep:
  assumes "mime_type (blob_heap w ! b) = Some m" and "\<exists>c\<in>set m. \<not> is_space c"
  shows "ensure_mime_type f b w = w"
proof -
  from assms(2) have "strip m \<noteq> []"
    by (simp add: strip_Nil_iff)
  moreover from assms(2) have "m \<noteq> []"
    by auto
  ultimately show ?thesis
    using assms(1) by (simp add: ensure_mime_type_def truthy_def)
qed

lemma update_keeps_mime_type:
  assumes "mime_type (xs ! a) = Some t"
  shows "mime_type (xs[b := (xs ! b)\<lparr>mime_type := Some t\<rparr>] ! a) = Some t"
proof (cases "b < length xs")
  case True
  with assms show ?thesis
    by (cases "a = b") simp_all
next
  case False
  with assms show ?thesis
    by (simp add: list_update_beyond)
qed

lemma ensure_mime_type_keeps_default:
  assumes "mime_type (blob_heap w ! a) = Some ''text/plain''"
  shows "mime_type (blob_heap (ensure_mime_type f b w) ! a) = Some ''text/plain''"
  using assms update_keeps_mime_type [of "blob_heap w" a "''text/plain''" b]
  by (simp add: ensure_mime_type_def Let_def)

lemma copy_part_simps [simp]:
  "fst (copy_part p w) = length (part_heap w)"
  "part_heap (snd (copy_part p w)) = part_heap w @ [part_heap w ! p]"
  "blob_heap (snd (copy_part p w)) = blob_heap w"
  "calls (snd (copy_part p w)) = calls w"
  "logged (snd (copy_part p w)) = logged w"
  by (simp_all add: copy_part_def)

lemma save_artifact_calls:
  "calls (snd (save_artifact svc app usr sess f art w)) =
     calls w @ [\<lparr>call_app_name = app, call_user_id = usr, call_session_id = sess,
                 call_filename = f, call_artifact = art, artifact_part = part_heap w ! art,
                 artifact_blob = map_option (\<lambda>b. blob_heap w ! b) (inline_data (part_heap w ! art))\<rparr>]"
  by (simp add: save_artifact_def Let_def)

lemma save_artifact_length [simp]:
  "length (part_heap (snd (save_artifact svc app usr sess f art w))) = length (part_heap w)"
  "length (blob_heap (snd (save_artifact svc app usr sess f art w))) = length (blob_heap w)"
  by (simp_all add: save_artifact_def Let_def)

lemma save_artifact_other_part:
  "a \<noteq> art \<Longrightarrow> part_heap (snd (save_artifact svc app usr sess f art w)) ! a = part_heap w ! a"
  by (simp add: save_artifact_def Let_def foldl_mutation_other_part)

lemma try_body_eq:
  "try_body ctx svc i p b w =
     (case save_outcome ctx svc i p b w of
        Inl e \<Rightarrow> Inl (e, after_save ctx svc i p b w)
      | Inr v \<Rightarrow>
          Inr (logger INFO (''Successfully saved artifact: '' @ fst (get_file_name ctx i b w) @ '' (''
                 @ fmt (mime_type (blob_heap (after_save ctx svc i p b w) ! b)) @ '')'')
                (after_save ctx svc i p b w)))"
  unfolding try_body_def after_save_def before_save_def save_outcome_def
  by (simp add: case_prod_beta Let_def split: sum.split)

lemma before_save_simps [simp]:
  "part_heap (before_save ctx i p b w) = part_heap w @ [part_heap w ! p]"
  "calls (before_save ctx i p b w) = calls w"
  "blob_heap (before_save ctx i p b w) =
     blob_heap (ensure_mime_type (fst (get_file_name ctx i b w)) b (snd (get_file_name ctx i b w)))"
  by (simp_all add: before_save_def)

lemma after_save_calls:
  "calls (after_save ctx svc i p b w) =
     calls w @ [\<lparr>call_app_name = app_name ctx, call_user_id = user_id ctx,
                 call_session_id = session_id ctx,
                 call_filename = fst (get_file_name ctx i b w),
                 call_artifact = length (part_heap w), artifact_part = part_heap w ! p,
                 artifact_blob =
                   map_option (\<lambda>b'. blob_heap (before_save ctx i p b w) ! b')
                     (inline_data (part_heap w ! p))\<rparr>]"
  by (simp add: after_save_def save_artifact_calls)

lemma after_save_parts:
  "length (part_heap (after_save ctx svc i p b w)) = Suc (length (part_heap w))"
  "a < length (part_heap w) \<Longrightarrow> part_heap (after_save ctx svc i p b w) ! a = part_heap w ! a"
  by (simp_all add: after_save_def save_artifact_other_part nth_append)

lemma after_save_blobs [simp]:
  "length (blob_heap (after_save ctx svc i p b w)) = length (blob_heap w)"
  by (simp add: after_save_def)


lemma after_save_mime_type:
  assumes "\<forall>h c. \<forall>m\<in>set (fst (svc h c)). \<not> assigns_mime_type m"
  shows "mime_type (blob_heap (after_save ctx svc i p b w) ! a) =
           mime_type (blob_heap (ensure_mime_type (fst (get_file_name ctx i b w)) b
                                   (snd (get_file_name ctx i b w))) ! a)"
  using assms
  by (simp add: after_save_def save_artifact_def Let_def foldl_mutation_mime_type)

subsection \<open>One iteration and the loop\<close>

lemma process_part_skip:
  "inline_data (part_heap w ! p) = None \<Longrightarrow> process_part ctx svc i p w = w"
  by (simp add: process_part_def)

lemma process_part_eq:
  assumes "inline_data (part_heap w ! p) = Some b"
  shows "process_part ctx svc i p w =
     (case save_outcome ctx svc i p b w of
        Inl e \<Rightarrow>
          logger ERROR (''Failed to save artifact for part '' @ str_nat i @ '': '' @ e)
            (after_save ctx svc i p b w)
      | Inr v \<Rightarrow>
          logger INFO (''Successfully saved artifact: '' @ fst (get_file_name ctx i b w) @ '' (''
                 @ fmt (mime_type (blob_heap (after_save ctx svc i p b w) ! b)) @ '')'')
            (after_save ctx svc i p b w))"
  using assms
  by (cases "save_outcome ctx svc i p b w") (simp_all add: process_part_def try_body_eq)

lemma process_part_inline:
  assumes "inline_data (part_heap w ! p) = Some b"
  shows "part_heap (process_part ctx svc i p w) = part_heap (after_save ctx svc i p b w)"
    and "blob_heap (process_part ctx svc i p w) = blob_heap (after_save ctx svc i p b w)"
    and "calls (process_part ctx svc i p w) = calls (after_save ctx svc i p b w)"
  by (simp_all add: process_part_eq [OF assms] split: sum.split)

lemma process_part_parts:
  "length (part_heap w) \<le> length (part_heap (process_part ctx svc i p w))"
  "a < length (part_heap w) \<Longrightarrow> part_heap (process_part ctx svc i p w) ! a = part_heap w ! a"
  by (cases "inline_data (part_heap w ! p)";
      simp add: process_part_skip process_part_inline after_save_parts)+

lemma process_part_blobs [simp]:
  "length (blob_heap (process_part ctx svc i p w)) = length (blob_heap w)"
  by (cases "inline_data (part_heap w ! p)")
     (simp_all add: process_part_skip process_part_inline)

lemma process_part_calls_prefix: "prefix (calls w) (calls (process_part ctx svc i p w))"
  by (cases "inline_data (part_heap w ! p)")
     (simp_all add: process_part_skip process_part_inline after_save_calls)


lemma process_part_keeps_default:
  assumes "\<forall>h c. \<forall>m\<in>set (fst (svc h c)). \<not> assigns_mime_type m"
    and "mime_type (blob_heap w ! a) = Some ''text/plain''"
  shows "mime_type (blob_heap (process_part ctx svc i p w) ! a) = Some ''text/plain''"
proof (cases "inline_data (part_heap w ! p)")
  case None
  with assms(2) show ?thesis by (simp add: process_part_skip)
next
  case (Some b)
  have "mime_type (blob_heap (snd (get_file_name ctx i b w)) ! a) = Some ''text/plain''"
    using assms(2) by simp
  then show ?thesis
    by (simp add: process_part_inline [OF Some] after_save_mime_type [OF assms(1)]
          ensure_mime_type_keeps_default)
qed

lemma process_parts_append:
  "process_parts ctx svc i (xs @ ys) w =
     process_parts ctx svc (i + length xs) ys (process_parts ctx svc i xs w)"
  by (induction xs arbitrary: i w) simp_all

lemma process_parts_take_Suc:
  assumes "j < length ps"
  shows "process_parts ctx svc 0 (take (Suc j) ps) w =
           process_part ctx svc j (ps ! j) (process_parts ctx svc 0 (take j ps) w)"
proof -
  have "take (Suc j) ps = take j ps @ [ps ! j]"
    using assms by (simp add: take_Suc_conv_app_nth)
  then show ?thesis
    using assms by (simp add: process_parts_append)
qed

lemma process_parts_from_take:
  assumes "j \<le> length ps"
  shows "process_parts ctx svc 0 ps w =
           process_parts ctx svc j (drop j ps) (process_parts ctx svc 0 (take j ps) w)"
proof -
  have "process_parts ctx svc 0 (take j ps @ drop j ps) w =
          process_parts ctx svc (0 + length (take j ps)) (drop j ps)
            (process_parts ctx svc 0 (take j ps) w)"
    by (rule process_parts_append)
  with assms show ?thesis by (simp add: min_absorb2)
qed

lemma process_parts_skip_all:
  "\<forall>a\<in>set ps. inline_data (part_heap w ! a) = None \<Longrightarrow> process_parts ctx svc i ps w = w"
  by (induction ps arbitrary: i) (simp_all add: process_part_skip)

lemma process_parts_calls_prefix: "prefix (calls w) (calls (process_parts ctx svc i ps w))"
proof (induction ps arbitrary: i w)
  case Nil
  then show ?case by simp
next
  case (Cons p ps)
  have "prefix (calls w) (calls (process_part ctx svc i p w))"
    by (rule process_part_calls_prefix)
  also have "prefix \<dots> (calls (process_parts ctx svc (Suc i) ps (process_part ctx svc i p w)))"
    by (rule Cons.IH)
  finally show ?case by simp
qed


lemma process_parts_parts:
  "length (part_heap w) \<le> length (part_heap (process_parts ctx svc i ps w))"
  "a < length (part_heap w) \<Longrightarrow> part_heap (process_parts ctx svc i ps w) ! a = part_heap w ! a"
proof (induction ps arbitrary: i w)
  case Nil
  { case 1 show ?case by simp }
  { case 2 show ?case by simp }
next
  case (Cons p ps)
  { case 1
    have "length (part_heap w) \<le> length (part_heap (process_part ctx svc i p w))"
      by (rule process_part_parts)
    also have "\<dots> \<le> length (part_heap (process_parts ctx svc (Suc i) ps (process_part ctx svc i p w)))"
      by (rule Cons.IH)
    finally show ?case by simp }
  { case 2
    then have "a < length (part_heap (process_part ctx svc i p w))"
      using process_part_parts(1) [of w ctx svc i p] by simp
    then have "part_heap (process_parts ctx svc (Suc i) ps (process_part ctx svc i p w)) ! a
                 = part_heap (process_part ctx svc i p w) ! a"
      by (rule Cons.IH)
    with 2 show ?case by (simp add: process_part_parts) }
qed

lemma process_parts_blobs [simp]:
  "length (blob_heap (process_parts ctx svc i ps w)) = length (blob_heap w)"
  by (induction ps arbitrary: i w) simp_all

lemma process_parts_keep_default:
  assumes "\<forall>h c. \<forall>m\<in>set (fst (svc h c)). \<not> assigns_mime_type m"
    and "mime_type (blob_heap w ! a) = Some ''text/plain''"
  shows "mime_type (blob_heap (process_parts ctx svc i ps w) ! a) = Some ''text/plain''"
  using assms(2)
  by (induction ps arbitrary: i w) (simp_all add: process_part_keeps_default [OF assms(1)])

lemma callback_with_service:
  assumes "artifact_service ctx = Some svc"
  shows "on_agent_output_callback ctx agent_output w =
           (None, process_parts ctx svc 0
                    (case parts agent_output of None \<Rightarrow> [] | Some ps \<Rightarrow> ps) w)"
  using assms
  by (simp add: on_agent_output_callback_def split: option.splits list.splits)

lemma callback_returns_None: "fst (on_agent_output_callback ctx agent_output w) = None"
  by (simp add: on_agent_output_callback_def split: option.splits list.splits)

lemma reached_call:
  assumes "artifact_service ctx = Some svc"
    and "parts agent_output = Some ps"
    and "j < length ps"
    and "wj = process_parts ctx svc 0 (take j ps) w"
    and "inline_data (part_heap wj ! (ps ! j)) = Some b"
  shows "\<exists>cs. calls (snd (on_agent_output_callback ctx agent_output w)) =
                calls (after_save ctx svc j (ps ! j) b wj) @ cs"
proof -
  have "process_parts ctx svc 0 (take (Suc j) ps) w = process_part ctx svc j (ps ! j) wj"
    using assms(3,4) by (simp add: process_parts_take_Suc)
  then have step: "calls (process_parts ctx svc 0 (take (Suc j) ps) w) =
                     calls (after_save ctx svc j (ps ! j) b wj)"
    using assms(5) by (simp add: process_part_inline)
  have "process_parts ctx svc 0 ps w =
          process_parts ctx svc (Suc j) (drop (Suc j) ps) (process_parts ctx svc 0 (take (Suc j) ps) w)"
    using assms(3) by (intro process_parts_from_take) simp
  then have "prefix (calls (process_parts ctx svc 0 (take (Suc j) ps) w))
               (calls (process_parts ctx svc 0 ps w))"
    by (simp add: process_parts_calls_prefix)
  with step obtain cs where
    "calls (process_parts ctx svc 0 ps w) = calls (after_save ctx svc j (ps ! j) b wj) @ cs"
    by (auto simp: prefix_def)
  then show ?thesis
    using assms(1,2) by (auto simp: callback_with_service)
qed

subsection \<open>Evaluation of the examples\<close>

lemmas ex_defs = ex_ctx_def ex_world_def ex_msg_def ok_service_def failing_service_def
  mutating_service_def blank_world_def blank_msg_def

lemmas run_defs = process_part_def try_body_def get_file_name_def ensure_mime_type_def
  copy_part_def save_artifact_def logger_def truthy_def strip_def is_space_def fmt_def Let_def

lemma str_nat_0: "str_nat 0 = ''0''"
  by code_simp

lemma str_nat_1: "str_nat (Suc 0) = ''1''"
  by code_simp

lemma str_nat_2: "str_nat (Suc (Suc 0)) = ''2''"
  by code_simp

lemma str_nat_one: "str_nat 1 = ''1''"
  by code_simp

lemmas str_nat_small = str_nat_0 str_nat_1 str_nat_2

lemma ex_reach_1:
  "process_parts (ex_ctx s) svc 0 (take 1 [0, 1, 2]) ex_world = ex_world"
  by (simp add: ex_world_def process_part_def)

lemma blank_reach_1:
  "process_parts (ex_ctx s) svc 0 (take 1 [0, 1]) blank_world = blank_world"
  by (simp add: blank_world_def process_part_def)

lemma ex_reach_2_ok:
  "process_parts (ex_ctx s) ok_service 0 (take 2 [0, 1, 2]) ex_world =
     \<lparr>part_heap = [\<lparr>part_text = Some ''hello'', inline_data = None\<rparr>,
                   \<lparr>part_text = None, inline_data = Some 0\<rparr>,
                   \<lparr>part_text = None, inline_data = Some 1\<rparr>,
                   \<lparr>part_text = None, inline_data = Some 0\<rparr>],
      blob_heap = [\<lparr>data = Some ''PNGDATA'', mime_type = Some ''text/plain'', display_name = Some []\<rparr>,
                   \<lparr>data = Some ''JPGDATA'', mime_type = Some ''image/jpeg'',
                      display_name = Some ''poster.jpg''\<rparr>],
      logged = [(INFO, ''No display_name found, using generated filename: artifact_inv1_1.txt''),
                (WARNING, ''Empty MIME type for artifact_inv1_1.txt, using text/plain''),
                (INFO, ''Successfully saved artifact: artifact_inv1_1.txt (text/plain)'')],
      calls = [\<lparr>call_app_name = ''movie_pitch'', call_user_id = ''user1'',
                 call_session_id = ''sess1'', call_filename = ''artifact_inv1_1.txt'',
                 call_artifact = 3,
                 artifact_part = \<lparr>part_text = None, inline_data = Some 0\<rparr>,
                 artifact_blob = Some \<lparr>data = Some ''PNGDATA'', mime_type = Some ''text/plain'',
                                        display_name = Some []\<rparr>\<rparr>]\<rparr>"
  by (simp add: ex_defs run_defs str_nat_small take_Suc_conv_app_nth numeral_2_eq_2)

lemma failing_service_raises:
  "try_body ctx failing_service i p b w =
     Inl (''store unavailable'', after_save ctx failing_service i p b w)"
  by (simp add: try_body_eq save_outcome_def save_artifact_def failing_service_def Let_def)

lemma ex_reach_2_failing:
  "part_heap (process_parts (ex_ctx s) failing_service 0 (take 2 [0, 1, 2]) ex_world) ! 2 =
     \<lparr>part_text = None, inline_data = Some 1\<rparr>"
  "length (part_heap (process_parts (ex_ctx s) failing_service 0 (take 2 [0, 1, 2]) ex_world)) = 4"
  "length (calls (process_parts (ex_ctx s) failing_service 0 (take 2 [0, 1, 2]) ex_world)) = 1"
  by (simp_all add: ex_defs run_defs str_nat_small take_Suc_conv_app_nth numeral_2_eq_2)

subsection \<open>No artifact service\<close>

text \<open>
  C4. When the invocation context carries no artifact service, the callback returns
  \<^verbatim>\<open>None\<close> and the only thing it does is log one warning: no call reaches an artifact
  service and no object changes, whatever the message holds.
\<close>

theorem C4_no_service:
  assumes "artifact_service ctx = None"
  shows "on_agent_output_callback ctx agent_output w =
           (None, w\<lparr>logged := logged w @
              [(WARNING, ''Artifact service is not set. SaveArtifactsPlugin will not be enabled.'')]\<rparr>)"
  using assms by (simp add: on_agent_output_callback_def logger_def)

theorem C4_no_service_witness:
  "artifact_service (ex_ctx None) = None \<and>
   on_agent_output_callback (ex_ctx None) ex_msg ex_world =
     (None, ex_world\<lparr>logged :=
        [(WARNING, ''Artifact service is not set. SaveArtifactsPlugin will not be enabled.'')]\<rparr>)"
proof -
  have h: "artifact_service (ex_ctx None) = None"
    by (simp add: ex_ctx_def)
  show ?thesis
    using h C4_no_service [OF h, of ex_msg ex_world] by (simp add: ex_world_def)
qed

subsection \<open>Messages without inline data\<close>

text \<open>
  C7. When no Part of the message has inline data (the message has no Parts, or only
  Parts of plain content), the callback makes no call to the artifact service and returns
  \<^verbatim>\<open>None\<close>.
\<close>

theorem C7_no_inline_parts:
  assumes "\<forall>a\<in>set (case parts agent_output of None \<Rightarrow> [] | Some ps \<Rightarrow> ps).
             inline_data (part_heap w ! a) = None"
  shows "fst (on_agent_output_callback ctx agent_output w) = None
       \<and> calls (snd (on_agent_output_callback ctx agent_output w)) = calls w"
proof (cases "artifact_service ctx")
  case None
  then show ?thesis
    by (simp add: on_agent_output_callback_def)
next
  case (Some svc)
  then show ?thesis
    using assms by (simp add: callback_with_service process_parts_skip_all)
qed

theorem C7_no_inline_parts_witness:
  "parts text_msg = Some [0]
   \<and> inline_data (part_heap ex_world ! 0) = None
   \<and> fst (on_agent_output_callback (ex_ctx (Some ok_service)) text_msg ex_world) = None
   \<and> calls (snd (on_agent_output_callback (ex_ctx (Some ok_service)) text_msg ex_world)) = []"
proof -
  have h: "\<forall>a\<in>set (case parts text_msg of None \<Rightarrow> [] | Some ps \<Rightarrow> ps).
             inline_data (part_heap ex_world ! a) = None"
    by (simp add: text_msg_def ex_world_def)
  have c: "calls ex_world = []"
    by (simp add: ex_world_def)
  show ?thesis
    using C7_no_inline_parts [OF h, of "ex_ctx (Some ok_service)"] c
    by (simp add: text_msg_def ex_world_def)
qed

subsection \<open>File names\<close>

text \<open>
  In the theorems below, \<open>wj\<close> is the world when the loop reaches index \<open>j\<close> of the
  message's Parts: the Parts before it have been processed, in order, from index 0. The
  calls the callback has made when it returns are those made before, then the call \<open>c\<close>
  for the Part at index \<open>j\<close>, then the calls for the later Parts.
\<close>

text \<open>
  C2 says that an inline-data Part whose display name is blank or absent gets the file
  name \<^verbatim>\<open>artifact_{invocation_id}_{i}.txt\<close>. A display name of three spaces is blank, yet
  line 61 tests only the truth value of the name, which is true for any non-empty string:
  the artifact service gets the three spaces as file name, and no name is generated.
\<close>

theorem C2_spaces_name_passed:
  "parts blank_msg = Some [0, 1]
   \<and> inline_data (part_heap spaces_world ! 1) = Some 0
   \<and> display_name (blob_heap spaces_world ! 0) = Some ''   ''
   \<and> strip ''   '' = []
   \<and> map call_filename (calls (snd (on_agent_output_callback (ex_ctx (Some ok_service))
                                       blank_msg spaces_world))) = [''   '']
   \<and> ''   '' \<noteq> ''artifact_inv1_1.txt''"
  by (simp add: on_agent_output_callback_def ex_defs spaces_world_def run_defs str_nat_small)

text \<open>
  C2, as amended. For an inline-data Part whose display name is absent (\<^verbatim>\<open>None\<close>) or the
  empty string, the file name passed to \<^verbatim>\<open>save_artifact\<close> is
  \<^verbatim>\<open>artifact_{invocation_id}_{j}.txt\<close>, with \<open>j\<close> the index of the Part in the full list
  of Parts.
\<close>

theorem C2_generated_file_name:
  assumes "artifact_service ctx = Some svc"
    and "parts agent_output = Some ps"
    and "j < length ps"
    and "wj = process_parts ctx svc 0 (take j ps) w"
    and "inline_data (part_heap wj ! (ps ! j)) = Some b"
    and "display_name (blob_heap wj ! b) = None \<or> display_name (blob_heap wj ! b) = Some []"
  shows "\<exists>c cs. calls (snd (on_agent_output_callback ctx agent_output w)) = calls wj @ c # cs
           \<and> call_filename c = ''artifact_'' @ invocation_id ctx @ ''_'' @ str_nat j @ ''.txt''"
proof -
  from reached_call [OF assms(1-5)] obtain cs where
    "calls (snd (on_agent_output_callback ctx agent_output w)) =
       calls (after_save ctx svc j (ps ! j) b wj) @ cs" ..
  moreover have "fst (get_file_name ctx j b wj) =
                   ''artifact_'' @ invocation_id ctx @ ''_'' @ str_nat j @ ''.txt''"
    using assms(6) by (auto simp: get_file_name_fst truthy_def)
  ultimately show ?thesis
    by (simp add: after_save_calls)
qed

theorem C2_generated_file_name_witness:
  "\<exists>c cs. calls (snd (on_agent_output_callback (ex_ctx (Some ok_service)) blank_msg blank_world)) = c # cs
      \<and> call_filename c = ''artifact_inv1_1.txt''"
proof -
  have h1: "artifact_service (ex_ctx (Some ok_service)) = Some ok_service"
    by (simp add: ex_ctx_def)
  have h2: "parts blank_msg = Some [0, 1]"
    by (simp add: blank_msg_def)
  have h3: "(1::nat) < length [0::nat, 1]"
    by simp
  have h4: "blank_world =
              process_parts (ex_ctx (Some ok_service)) ok_service 0 (take 1 [0, 1]) blank_world"
    by (simp only: blank_reach_1)
  have h5: "inline_data (part_heap blank_world ! ([0, 1] ! 1)) = Some 0"
    by (simp add: blank_world_def)
  have h6: "display_name (blob_heap blank_world ! 0) = None
          \<or> display_name (blob_heap blank_world ! 0) = Some []"
    by (simp add: blank_world_def)
  from C2_generated_file_name [OF h1 h2 h3 h4 h5 h6] show ?thesis
    by (simp add: ex_ctx_def blank_world_def str_nat_one str_nat_small)
qed

text \<open>
  C8. For an inline-data Part whose display name is a non-empty string and whose media type
  has a character that is not white space, \<^verbatim>\<open>save_artifact\<close> gets exactly that display
  name as file name, and the artifact carries the Part's Blob as it was, with that media
  type.
\<close>

theorem C8_name_and_media_type_kept:
  assumes "artifact_service ctx = Some svc"
    and "parts agent_output = Some ps"
    and "j < length ps"
    and "wj = process_parts ctx svc 0 (take j ps) w"
    and "inline_data (part_heap wj ! (ps ! j)) = Some b"
    and "display_name (blob_heap wj ! b) = Some n" and "n \<noteq> []"
    and "mime_type (blob_heap wj ! b) = Some m" and "\<exists>ch\<in>set m. \<not> is_space ch"
  shows "\<exists>c cs. calls (snd (on_agent_output_callback ctx agent_output w)) = calls wj @ c # cs
           \<and> call_filename c = n
           \<and> artifact_blob c = Some (blob_heap wj ! b)
           \<and> mime_type (blob_heap wj ! b) = Some m"
proof -
  from reached_call [OF assms(1-5)] obtain cs where
    "calls (snd (on_agent_output_callback ctx agent_output w)) =
       calls (after_save ctx svc j (ps ! j) b wj) @ cs" ..
  moreover have "fst (get_file_name ctx j b wj) = n"
    using assms(6,7) by (simp add: get_file_name_fst truthy_def)
  moreover have "blob_heap (before_save ctx j (ps ! j) b wj) = blob_heap wj"
    using assms(8,9) by (simp add: ensure_mime_type_keep)
  ultimately show ?thesis
    using assms(5,8) by (simp add: after_save_calls)
qed

theorem C8_name_and_media_type_kept_witness:
  "\<exists>c0 c cs. calls (snd (on_agent_output_callback (ex_ctx (Some ok_service)) ex_msg ex_world)) = c0 # c # cs
      \<and> call_filename c = ''poster.jpg''
      \<and> artifact_blob c = Some \<lparr>data = Some ''JPGDATA'', mime_type = Some ''image/jpeg'',
                                display_name = Some ''poster.jpg''\<rparr>"
proof -
  let ?w2 = "process_parts (ex_ctx (Some ok_service)) ok_service 0 (take 2 [0, 1, 2]) ex_world"
  have h1: "artifact_service (ex_ctx (Some ok_service)) = Some ok_service"
    by (simp add: ex_ctx_def)
  have h2: "parts ex_msg = Some [0, 1, 2]"
    by (simp add: ex_msg_def)
  have h3: "(2::nat) < length [0::nat, 1, 2]"
    by simp
  have h4: "?w2 = ?w2"
    by (rule refl)
  have h5: "inline_data (part_heap ?w2 ! ([0, 1, 2] ! 2)) = Some 1"
    unfolding ex_reach_2_ok by simp
  have h6: "display_name (blob_heap ?w2 ! 1) = Some ''poster.jpg''"
    unfolding ex_reach_2_ok by simp
  have h7: "''poster.jpg'' \<noteq> []"
    by simp
  have h8: "mime_type (blob_heap ?w2 ! 1) = Some ''image/jpeg''"
    unfolding ex_reach_2_ok by simp
  have h9: "\<exists>ch\<in>set ''image/jpeg''. \<not> is_space ch"
    by (simp add: is_space_def)
  from C8_name_and_media_type_kept [OF h1 h2 h3 h4 h5 h6 h7 h8 h9] show ?thesis
    unfolding ex_reach_2_ok by simp blast
qed

subsection \<open>Media types\<close>

text \<open>
  C3. For an inline-data Part whose media type is absent or consists of white space only,
  the artifact passed to \<^verbatim>\<open>save_artifact\<close> carries the media type \<^verbatim>\<open>text/plain\<close>.
\<close>

theorem C3_default_media_type:
  assumes "artifact_service ctx = Some svc"
    and "parts agent_output = Some ps"
    and "j < length ps"
    and "wj = process_parts ctx svc 0 (take j ps) w"
    and "inline_data (part_heap wj ! (ps ! j)) = Some b"
    and "b < length (blob_heap wj)"
    and "case mime_type (blob_heap wj ! b) of None \<Rightarrow> True | Some m \<Rightarrow> \<forall>ch\<in>set m. is_space ch"
  shows "\<exists>c cs bl. calls (snd (on_agent_output_callback ctx agent_output w)) = calls wj @ c # cs
           \<and> artifact_blob c = Some bl \<and> mime_type bl = Some ''text/plain''"
proof -
  from reached_call [OF assms(1-5)] obtain cs where
    "calls (snd (on_agent_output_callback ctx agent_output w)) =
       calls (after_save ctx svc j (ps ! j) b wj) @ cs" ..
  moreover have "mime_type (blob_heap (before_save ctx j (ps ! j) b wj) ! b) = Some ''text/plain''"
    using assms(6,7) by (simp add: ensure_mime_type_default)
  ultimately show ?thesis
    using assms(5) by (simp add: after_save_calls)
qed

theorem C3_default_media_type_witness:
  "\<exists>c cs bl. calls (snd (on_agent_output_callback (ex_ctx (Some ok_service)) blank_msg blank_world)) = c # cs
      \<and> artifact_blob c = Some bl \<and> mime_type bl = Some ''text/plain''"
proof -
  have h1: "artifact_service (ex_ctx (Some ok_service)) = Some ok_service"
    by (simp add: ex_ctx_def)
  have h2: "parts blank_msg = Some [0, 1]"
    by (simp add: blank_msg_def)
  have h3: "(1::nat) < length [0::nat, 1]"
    by simp
  have h4: "blank_world =
              process_parts (ex_ctx (Some ok_service)) ok_service 0 (take 1 [0, 1]) blank_world"
    by (simp only: blank_reach_1)
  have h5: "inline_data (part_heap blank_world ! ([0, 1] ! 1)) = Some 0"
    by (simp add: blank_world_def)
  have h6: "0 < length (blob_heap blank_world)"
    by (simp add: blank_world_def)
  have h7: "case mime_type (blob_heap blank_world ! 0) of None \<Rightarrow> True
            | Some m \<Rightarrow> \<forall>ch\<in>set m. is_space ch"
    by (simp add: blank_world_def is_space_def)
  from C3_default_media_type [OF h1 h2 h3 h4 h5 h6 h7] show ?thesis
    by (simp add: blank_world_def)
qed

text \<open>
  C10 says that when the media type of an inline-data Part is absent or white space only
  and the call of the artifact service for that Part raises, the Part in the message
  still carries \<^verbatim>\<open>text/plain\<close> when the callback returns. That depends on the artifact
  service: one that assigns a media type to the Blob it is given and then raises leaves
  its own value in the message. Here the media type is one space, the call raises, the
  failure is the last record logged, and the message's Blob holds
  \<^verbatim>\<open>application/x-broken\<close>.
\<close>

theorem C10_store_overwrites_default:
  "parts blank_msg = Some [0, 1]
   \<and> inline_data (part_heap blank_world ! 1) = Some 0
   \<and> mime_type (blob_heap blank_world ! 0) = Some '' ''
   \<and> last (logged (snd (on_agent_output_callback (ex_ctx (Some breaking_service))
                           blank_msg blank_world)))
         = (ERROR, ''Failed to save artifact for part 1: store unavailable'')
   \<and> mime_type (blob_heap (snd (on_agent_output_callback (ex_ctx (Some breaking_service))
                                  blank_msg blank_world)) ! 0) = Some ''application/x-broken''"
  by (simp add: on_agent_output_callback_def ex_defs breaking_service_def run_defs str_nat_small)

text \<open>
  C10, as amended. When the media type of an inline-data Part is absent or white space
  only and the call of the artifact service for that Part raises, the Blob of the
  message's Part holds \<^verbatim>\<open>text/plain\<close> when the callback returns, provided the artifact
  service does not itself assign to the media type of the Blob it is given: the callback
  does not undo its own assignment. The service may assign to anything else.
\<close>

theorem C10_default_survives_failure:
  assumes "artifact_service ctx = Some svc"
    and "parts agent_output = Some ps"
    and "j < length ps"
    and "wj = process_parts ctx svc 0 (take j ps) w"
    and "inline_data (part_heap wj ! (ps ! j)) = Some b"
    and "b < length (blob_heap wj)"
    and "case mime_type (blob_heap wj ! b) of None \<Rightarrow> True | Some m \<Rightarrow> \<forall>ch\<in>set m. is_space ch"
    and "try_body ctx svc j (ps ! j) b wj = Inl (e, w')"
    and "\<forall>h c. \<forall>m\<in>set (fst (svc h c)). \<not> assigns_mime_type m"
  shows "mime_type (blob_heap (snd (on_agent_output_callback ctx agent_output w)) ! b)
           = Some ''text/plain''"
proof -
  have "mime_type (blob_heap (process_part ctx svc j (ps ! j) wj) ! b) = Some ''text/plain''"
    using assms(6,7)
    by (simp add: process_part_inline [OF assms(5)] after_save_mime_type [OF assms(9)]
          ensure_mime_type_default)
  then have "mime_type (blob_heap (process_parts ctx svc (Suc j) (drop (Suc j) ps)
                 (process_part ctx svc j (ps ! j) wj)) ! b) = Some ''text/plain''"
    by (rule process_parts_keep_default [OF assms(9)])
  moreover have "process_parts ctx svc 0 ps w =
          process_parts ctx svc (Suc j) (drop (Suc j) ps) (process_parts ctx svc 0 (take (Suc j) ps) w)"
    using assms(3) by (intro process_parts_from_take) simp
  ultimately have "mime_type (blob_heap (process_parts ctx svc 0 ps w) ! b) = Some ''text/plain''"
    using assms(3,4) by (simp add: process_parts_take_Suc)
  then show ?thesis
    using assms(1,2) by (simp add: callback_with_service)
qed

theorem C10_default_survives_failure_witness:
  "mime_type (blob_heap blank_world ! 0) = Some '' ''
   \<and> mime_type (blob_heap (snd (on_agent_output_callback (ex_ctx (Some failing_service))
                                  blank_msg blank_world)) ! 0) = Some ''text/plain''"
proof -
  let ?ctx = "ex_ctx (Some failing_service)"
  have h1: "artifact_service ?ctx = Some failing_service"
    by (simp add: ex_ctx_def)
  have h2: "parts blank_msg = Some [0, 1]"
    by (simp add: blank_msg_def)
  have h3: "(1::nat) < length [0::nat, 1]"
    by simp
  have h4: "blank_world = process_parts ?ctx failing_service 0 (take 1 [0, 1]) blank_world"
    by (simp only: blank_reach_1)
  have h5: "inline_data (part_heap blank_world ! ([0, 1] ! 1)) = Some 0"
    by (simp add: blank_world_def)
  have h6: "0 < length (blob_heap blank_world)"
    by (simp add: blank_world_def)
  have h7: "case mime_type (blob_heap blank_world ! 0) of None \<Rightarrow> True
            | Some m \<Rightarrow> \<forall>ch\<in>set m. is_space ch"
    by (simp add: blank_world_def is_space_def)
  have h8: "try_body ?ctx failing_service 1 ([0, 1] ! 1) 0 blank_world =
              Inl (''store unavailable'', after_save ?ctx failing_service 1 ([0, 1] ! 1) 0 blank_world)"
    by (rule failing_service_raises)
  have h9: "\<forall>h c. \<forall>m\<in>set (fst (failing_service h c)). \<not> assigns_mime_type m"
    by (simp add: failing_service_def)
  have "mime_type (blob_heap blank_world ! 0) = Some '' ''"
    by (simp add: blank_world_def)
  with C10_default_survives_failure [OF h1 h2 h3 h4 h5 h6 h7 h8 h9] show ?thesis
    by simp
qed

subsection \<open>Failures of the artifact service\<close>

text \<open>
  C5. When the call of the artifact service raises for the Part at index \<open>k\<close>, every later
  inline-data Part, at any index \<open>j\<close> with \<open>k < j\<close>, still gets its call of
  \<^verbatim>\<open>save_artifact\<close>, with a new copy of that Part as the artifact, and the callback
  returns \<^verbatim>\<open>None\<close>.
\<close>

theorem C5_later_parts_still_saved:
  assumes "artifact_service ctx = Some svc"
    and "parts agent_output = Some ps"
    and "k < j" and "j < length ps"
    and "wk = process_parts ctx svc 0 (take k ps) w"
    and "inline_data (part_heap wk ! (ps ! k)) = Some bk"
    and "try_body ctx svc k (ps ! k) bk wk = Inl (e, wk')"
    and "wj = process_parts ctx svc 0 (take j ps) w"
    and "inline_data (part_heap wj ! (ps ! j)) = Some b"
  shows "fst (on_agent_output_callback ctx agent_output w) = None
       \<and> (\<exists>c cs. calls (snd (on_agent_output_callback ctx agent_output w)) = calls wj @ c # cs
             \<and> call_artifact c = length (part_heap wj)
             \<and> artifact_part c = part_heap wj ! (ps ! j))"
proof -
  from reached_call [OF assms(1,2,4,8,9)] obtain cs where
    "calls (snd (on_agent_output_callback ctx agent_output w)) =
       calls (after_save ctx svc j (ps ! j) b wj) @ cs" ..
  then show ?thesis
    by (simp add: after_save_calls callback_returns_None)
qed

theorem C5_later_parts_still_saved_witness:
  "fst (on_agent_output_callback (ex_ctx (Some failing_service)) ex_msg ex_world) = None
   \<and> (\<exists>c0 c cs.
         calls (snd (on_agent_output_callback (ex_ctx (Some failing_service)) ex_msg ex_world)) = c0 # c # cs
         \<and> call_artifact c = 4
         \<and> artifact_part c = \<lparr>part_text = None, inline_data = Some 1\<rparr>)"
proof -
  let ?ctx = "ex_ctx (Some failing_service)"
  let ?w2 = "process_parts ?ctx failing_service 0 (take 2 [0, 1, 2]) ex_world"
  have h1: "artifact_service ?ctx = Some failing_service"
    by (simp add: ex_ctx_def)
  have h2: "parts ex_msg = Some [0, 1, 2]"
    by (simp add: ex_msg_def)
  have h3: "(1::nat) < 2"
    by simp
  have h4: "(2::nat) < length [0::nat, 1, 2]"
    by simp
  have h5: "ex_world = process_parts ?ctx failing_service 0 (take 1 [0, 1, 2]) ex_world"
    by (simp only: ex_reach_1)
  have h6: "inline_data (part_heap ex_world ! ([0, 1, 2] ! 1)) = Some 0"
    by (simp add: ex_world_def)
  have h7: "try_body ?ctx failing_service 1 ([0, 1, 2] ! 1) 0 ex_world =
              Inl (''store unavailable'', after_save ?ctx failing_service 1 ([0, 1, 2] ! 1) 0 ex_world)"
    by (rule failing_service_raises)
  have h8: "?w2 = ?w2"
    by (rule refl)
  have h9: "inline_data (part_heap ?w2 ! ([0, 1, 2] ! 2)) = Some 1"
    using ex_reach_2_failing(1) [of "Some failing_service"] by simp
  from C5_later_parts_still_saved [OF h1 h2 h3 h4 h5 h6 h7 h8 h9]
  obtain c cs where
    r: "fst (on_agent_output_callback ?ctx ex_msg ex_world) = None"
       "calls (snd (on_agent_output_callback ?ctx ex_msg ex_world)) = calls ?w2 @ c # cs"
       "call_artifact c = length (part_heap ?w2)"
       "artifact_part c = part_heap ?w2 ! ([0, 1, 2] ! 2)"
    by blast
  obtain c0 where c0: "calls ?w2 = [c0]"
    using ex_reach_2_failing(3) [of "Some failing_service"]
    by (cases "calls ?w2") auto
  have "call_artifact c = 4" "artifact_part c = \<lparr>part_text = None, inline_data = Some 1\<rparr>"
    using r(3,4) ex_reach_2_failing(1,2) [of "Some failing_service"] by simp_all
  with r(1,2) c0 show ?thesis
    by simp
qed




subsection \<open>The copy handed to the artifact service\<close>

text \<open>
  C9 says that no assignment the artifact service makes through its argument can alter
  the Part held in the message, its inline data included. It can: with an artifact service
  that assigns bytes and a media type to the Blob of the Part it is given, the Blob of the message's
  Part at index 2 has other bytes and another media type when the callback returns. The
  copy is shallow and shares the Blob with the message.
\<close>

theorem C9_store_mutation_reaches_message:
  "parts ex_msg = Some [0, 1, 2]
   \<and> inline_data (part_heap ex_world ! 2) = Some 1
   \<and> blob_heap ex_world ! 1 =
         \<lparr>data = Some ''JPGDATA'', mime_type = Some ''image/jpeg'',
            display_name = Some ''poster.jpg''\<rparr>
   \<and> inline_data (part_heap (snd (on_agent_output_callback (ex_ctx (Some mutating_service))
                                    ex_msg ex_world)) ! 2) = Some 1
   \<and> blob_heap (snd (on_agent_output_callback (ex_ctx (Some mutating_service))
                       ex_msg ex_world)) ! 1 =
         \<lparr>data = Some ''REDACTED'', mime_type = Some ''application/octet-stream'',
            display_name = Some ''poster.jpg''\<rparr>"
  by (simp add: on_agent_output_callback_def ex_defs run_defs str_nat_small)

text \<open>
  C9, as amended. The Part passed to \<^verbatim>\<open>save_artifact\<close> is a shallow copy: a new object
  that is none of the message's Parts, with the field values of the message's Part, hence
  with the same Blob. Whatever the artifact service assigns, in any of its calls, every
  Part of the message has the same fields when the callback returns. Nothing is said of
  the Blob, which the copy shares with the message.
\<close>

theorem C9_shallow_copy:
  assumes "artifact_service ctx = Some svc"
    and "parts agent_output = Some ps"
    and "\<forall>a\<in>set ps. a < length (part_heap w)"
    and "j < length ps"
    and "wj = process_parts ctx svc 0 (take j ps) w"
    and "inline_data (part_heap w ! (ps ! j)) = Some b"
  shows "\<exists>c cs. calls (snd (on_agent_output_callback ctx agent_output w)) = calls wj @ c # cs
           \<and> call_artifact c \<notin> set ps
           \<and> artifact_part c = part_heap w ! (ps ! j)
           \<and> (\<forall>a\<in>set ps. part_heap (snd (on_agent_output_callback ctx agent_output w)) ! a
                             = part_heap w ! a)"
proof -
  have valid: "ps ! j < length (part_heap w)"
    using assms(3,4) by simp
  then have same: "part_heap wj ! (ps ! j) = part_heap w ! (ps ! j)"
    using assms(5) by (simp add: process_parts_parts)
  with assms(6) have inl: "inline_data (part_heap wj ! (ps ! j)) = Some b"
    by simp
  from reached_call [OF assms(1,2,4,5) inl] obtain cs where
    cs: "calls (snd (on_agent_output_callback ctx agent_output w)) =
           calls (after_save ctx svc j (ps ! j) b wj) @ cs" ..
  have "length (part_heap w) \<le> length (part_heap wj)"
    using assms(5) by (simp add: process_parts_parts)
  with assms(3) have fresh: "length (part_heap wj) \<notin> set ps"
    by auto
  have frame: "\<forall>a\<in>set ps. part_heap (snd (on_agent_output_callback ctx agent_output w)) ! a
                             = part_heap w ! a"
    using assms(1,2,3) by (simp add: callback_with_service process_parts_parts)
  from cs fresh same frame show ?thesis
    by (simp add: after_save_calls)
qed

theorem C9_shallow_copy_witness:
  "\<exists>pre c cs.
      calls (snd (on_agent_output_callback (ex_ctx (Some mutating_service)) ex_msg ex_world)) = pre @ c # cs
      \<and> call_artifact c \<notin> set [0, 1, 2]
      \<and> artifact_part c = \<lparr>part_text = None, inline_data = Some 1\<rparr>
      \<and> part_heap (snd (on_agent_output_callback (ex_ctx (Some mutating_service)) ex_msg ex_world)) ! 1
            = \<lparr>part_text = None, inline_data = Some 0\<rparr>
      \<and> part_heap (snd (on_agent_output_callback (ex_ctx (Some mutating_service)) ex_msg ex_world)) ! 2
            = \<lparr>part_text = None, inline_data = Some 1\<rparr>"
proof -
  let ?ctx = "ex_ctx (Some mutating_service)"
  let ?w2 = "process_parts ?ctx mutating_service 0 (take 2 [0, 1, 2]) ex_world"
  have h1: "artifact_service ?ctx = Some mutating_service"
    by (simp add: ex_ctx_def)
  have h2: "parts ex_msg = Some [0, 1, 2]"
    by (simp add: ex_msg_def)
  have h3: "\<forall>a\<in>set [0, 1, 2]. a < length (part_heap ex_world)"
    by (simp add: ex_world_def)
  have h4: "(2::nat) < length [0::nat, 1, 2]"
    by simp
  have h5: "?w2 = ?w2"
    by (rule refl)
  have h6: "inline_data (part_heap ex_world ! ([0, 1, 2] ! 2)) = Some 1"
    by (simp add: ex_world_def)
  from C9_shallow_copy [OF h1 h2 h3 h4 h5 h6]
  obtain c cs where
    r: "calls (snd (on_agent_output_callback ?ctx ex_msg ex_world)) = calls ?w2 @ c # cs"
       "call_artifact c \<notin> set [0, 1, 2]"
       "artifact_part c = part_heap ex_world ! ([0, 1, 2] ! 2)"
       "\<forall>a\<in>set [0, 1, 2]. part_heap (snd (on_agent_output_callback ?ctx ex_msg ex_world)) ! a
                               = part_heap ex_world ! a"
    by blast
  have "artifact_part c = \<lparr>part_text = None, inline_data = Some 1\<rparr>"
    using r(3) by (simp add: ex_world_def)
  moreover have "part_heap (snd (on_agent_output_callback ?ctx ex_msg ex_world)) ! 1
                   = \<lparr>part_text = None, inline_data = Some 0\<rparr>"
    using r(4) by (simp add: ex_world_def)
  moreover have "part_heap (snd (on_agent_output_callback ?ctx ex_msg ex_world)) ! 2
                   = \<lparr>part_text = None, inline_data = Some 1\<rparr>"
    using r(4) by (simp add: ex_world_def)
  ultimately show ?thesis
    using r(1,2) by blast
qed

subsection \<open>The message after the callback\<close>

text \<open>
  C1 says that the callback leaves the message as it received it, down to the media type
  of every Part. On the message of the specification's example it does not. The Part at
  index 1 refers to a Blob whose media type is the empty string; the save succeeds, the
  callback returns \<^verbatim>\<open>None\<close>, and the same Blob, still the inline data of the message's
  Part, now has the media type \<^verbatim>\<open>text/plain\<close>. The assignment of line 70 goes to the Blob
  of the message and is made before the Part is copied, whereas the generated file name
  stays in a local variable and the comment above the \<^verbatim>\<open>return\<close> says that the output
  remains unchanged.
\<close>

theorem C1_media_type_overwritten:
  "parts ex_msg = Some [0, 1, 2]
   \<and> inline_data (part_heap ex_world ! 1) = Some 0
   \<and> mime_type (blob_heap ex_world ! 0) = Some []
   \<and> fst (on_agent_output_callback (ex_ctx (Some ok_service)) ex_msg ex_world) = None
   \<and> mime_type (blob_heap (snd (on_agent_output_callback (ex_ctx (Some ok_service)) ex_msg ex_world)) ! 0)
        = Some ''text/plain''"
  by (simp add: on_agent_output_callback_def ex_defs run_defs str_nat_small)

end
